theory Spec2Isabelle
  imports Main "HOL-Library.Word"
begin

section \<open>Common data\<close>

text \<open>
  Go's \<open>[]byte\<close> is a list of 8-bit words. \<open>auth.Flavor\<close> is a protobuf enumeration, an
  \<open>int32\<close>; the conversions \<open>uint32(flavor)\<close> and \<open>auth.Flavor(u)\<close> keep the 32 bits, so
  both sides are \<open>32 word\<close> and the conversions are the identity.
\<close>

type_synonym bytes = "8 word list"
type_synonym Flavor = "32 word"

text \<open>
  Go errors as values. \<open>Errorf\<close> stands for \<open>errors.New\<close>, \<open>errors.Errorf\<close> and
  \<open>fmt.Errorf\<close> (the format string and its arguments), \<open>Wrap\<close> for \<open>errors.Wrap\<close> and
  \<open>errors.Wrapf\<close>, \<open>StatusErr\<close> for a \<open>daos.Status\<close> used as an error, and the two
  failures are the ones package \<open>drpc\<close> constructs.
\<close>

datatype fmtarg = ArgS string | ArgF Flavor | ArgD "32 word"

datatype error =
    Errorf string "fmtarg list"
  | Wrap error string "fmtarg list"
  | StatusErr "32 word"
  | UnmarshalingPayloadFailure
  | UnknownMethodFailure

section \<open>Package auth: tokens\<close>

text \<open>
  \<open>auth.Token\<close> is the protobuf message with a flavor and opaque data. A token is a
  value here; a nil \<open>*Token\<close> is outside the model.
\<close>

record Token =
  Token_Flavor :: Flavor
  Token_Data :: bytes

text \<open>
  \<open>security.DefaultTokenSigner()\<close> is not part of the sources at hand: its three methods
  are taken as they are called. \<open>Verify\<close> returns Go's \<open>error\<close>, \<open>None\<close> being \<open>nil\<close>.
\<close>

record 'k TokenSigner =
  Hash :: "bytes \<Rightarrow> error + bytes"
  Sign :: "'k \<Rightarrow> bytes \<Rightarrow> error + bytes"
  Verify :: "'k \<Rightarrow> bytes \<Rightarrow> bytes \<Rightarrow> error option"


text \<open>\<open>VerifyToken\<close> returns Go's \<open>error\<close>: \<open>None\<close> is \<open>nil\<close>, the token verified.\<close>

definition VerifyToken ::
  "(Token \<Rightarrow> error + bytes) \<Rightarrow> 'k TokenSigner \<Rightarrow> 'k option \<Rightarrow> Token \<Rightarrow> bytes \<Rightarrow> Flavor list
     \<Rightarrow> error option" where
  "VerifyToken marshal signer key token sig validAuthFlavors =
     (case marshal token of
        Inl err \<Rightarrow> Some (Wrap err ''unable to marshal Token'' [])
      | Inr tokenBytes \<Rightarrow>
          if Token_Flavor token \<notin> set validAuthFlavors
          then Some (Errorf ''token has authentication flavor not supported by server.'' [])
          else
            (case key of
               None \<Rightarrow>
                 (case Hash signer tokenBytes of
                    Inl err \<Rightarrow> Some err
                  | Inr digest \<Rightarrow>
                      if digest = sig then None
                      else Some (Errorf ''unsigned hash failed to verify.'' []))
             | Some k \<Rightarrow>
                 (case Verify signer k tokenBytes sig of
                    None \<Rightarrow> None
                  | Some err \<Rightarrow> Some (Wrap err ''token verification Failed'' []))))"

text \<open>
  \<open>AuthSysFromAuthToken\<close>: the constant \<open>Flavor_AUTH_SYS\<close> and \<open>proto.Unmarshal\<close> into
  an \<open>auth.Sys\<close> come from generated code that is not at hand, and are parameters.
\<close>

definition AuthSysFromAuthToken ::
  "Flavor \<Rightarrow> (bytes \<Rightarrow> error + 's) \<Rightarrow> Token \<Rightarrow> error + 's" where
  "AuthSysFromAuthToken Flavor_AUTH_SYS unmarshal authToken =
     (if Token_Flavor authToken \<noteq> Flavor_AUTH_SYS
      then Inl (Errorf ''Attempting to convert an invalid AuthSys Token'' [])
      else
        (case unmarshal (Token_Data authToken) of
           Inl err \<Rightarrow> Inl (Wrap err ''unmarshaling %s'' [ArgF (Token_Flavor authToken)])
         | Inr sysToken \<Rightarrow> Inr sysToken))"

section \<open>Package auth: flavors\<close>

text \<open>
  \<open>ParseValidAuthFlavors\<close> fills a slice of the input's length by index. The table
  \<open>Flavor_value\<close> (name to number) is generated code, a parameter here.
\<close>

function ParseValidAuthFlavors_loop ::
  "(string \<rightharpoonup> Flavor) \<Rightarrow> string list \<Rightarrow> nat \<Rightarrow> Flavor list \<Rightarrow> error + Flavor list" where
  "ParseValidAuthFlavors_loop Flavor_value authStrings i validAuthFlavors =
     (if i < length authStrings then
        (case Flavor_value (''AUTH_'' @ authStrings ! i) of
           None \<Rightarrow> Inl (Errorf ''auth string %s is not recognized'' [ArgS (authStrings ! i)])
         | Some flavor \<Rightarrow>
             ParseValidAuthFlavors_loop Flavor_value authStrings (i + 1)
               (validAuthFlavors[i := flavor]))
      else Inr validAuthFlavors)"
  by pat_completeness auto
termination
  by (relation "measure (\<lambda>(fv, authStrings, i, acc). length authStrings - i)") auto

declare ParseValidAuthFlavors_loop.simps [simp del]

definition ParseValidAuthFlavors :: "(string \<rightharpoonup> Flavor) \<Rightarrow> string list \<Rightarrow> error + Flavor list" where
  "ParseValidAuthFlavors Flavor_value authStrings =
     ParseValidAuthFlavors_loop Flavor_value authStrings 0 (replicate (length authStrings) 0)"

text \<open>
  The factories listed in \<open>CredentialRequests\<close>. \<open>generateAuthMap\<close> ranges over the list;
  a panic is \<open>Inl\<close> of the panic's value. \<open>GetAuthFlavor\<close> is implemented elsewhere and
  \<open>Flavor_name\<close> is generated code: both are parameters.
\<close>

datatype CredentialRequestFactory = CredentialRequestUnix | CredentialRequestAM

fun generateAuthMap_loop ::
  "('f \<Rightarrow> Flavor) \<Rightarrow> (Flavor \<rightharpoonup> string) \<Rightarrow> 'f list \<Rightarrow> (Flavor \<rightharpoonup> 'f) \<Rightarrow> error + (Flavor \<rightharpoonup> 'f)" where
  "generateAuthMap_loop GetAuthFlavor Flavor_name [] am = Inr am"
| "generateAuthMap_loop GetAuthFlavor Flavor_name (req # rest) am =
     (let flavor = GetAuthFlavor req in
      case am flavor of
        Some _ \<Rightarrow>
          Inl (Errorf ''multiple authentication methods with the flavor `%s` were found - confirm that all implementations of `GetAuthName` are unique''
                 [ArgS (case Flavor_name flavor of None \<Rightarrow> [] | Some n \<Rightarrow> n)])
      | None \<Rightarrow> generateAuthMap_loop GetAuthFlavor Flavor_name rest (am(flavor \<mapsto> req)))"

definition generateAuthMap ::
  "('f \<Rightarrow> Flavor) \<Rightarrow> (Flavor \<rightharpoonup> string) \<Rightarrow> 'f list \<Rightarrow> error + (Flavor \<rightharpoonup> 'f)" where
  "generateAuthMap GetAuthFlavor Flavor_name CredentialRequests =
     generateAuthMap_loop GetAuthFlavor Flavor_name CredentialRequests Map.empty"

section \<open>The agent's security module: request arguments and cached credentials\<close>

text \<open>
  \<open>auth.AuthArgs\<close> is the request message: a flavor and the request body for that flavor.
  In \<open>getAuthArgs\<close>, \<open>Unix_GetAuthFlavor\<close> is what
  \<open>auth.CredentialRequestUnix{}.GetAuthFlavor()\<close> returns and \<open>unmarshal\<close> is
  \<open>proto.Unmarshal\<close> into a fresh \<open>AuthArgs\<close>; printing the arguments is left out.
\<close>

record AuthArgs =
  AuthArgs_Flavor :: Flavor
  AuthArgs_Data :: bytes

definition getAuthArgs ::
  "Flavor \<Rightarrow> (bytes \<Rightarrow> error + AuthArgs) \<Rightarrow> bytes \<Rightarrow> error + AuthArgs" where
  "getAuthArgs Unix_GetAuthFlavor unmarshal reqb =
     (let args = \<lparr>AuthArgs_Flavor = 0, AuthArgs_Data = []\<rparr>;
          reqbSize = length reqb
      in if reqbSize = 0 then Inr (args\<lparr>AuthArgs_Flavor := Unix_GetAuthFlavor\<rparr>)
         else (case unmarshal reqb of
                 Inl err \<Rightarrow> Inl UnmarshalingPayloadFailure
               | Inr args' \<Rightarrow> Inr args'))"

text \<open>
  A \<open>time.Time\<close> is an instant counted in nanoseconds from Go's zero time, a
  \<open>time.Duration\<close> a number of nanoseconds; \<open>IsZero\<close> is \<open>t = 0\<close>, \<open>t.Add(d)\<close> is
  \<open>t + d\<close> and \<open>t.After(u)\<close> is \<open>u < t\<close>. The clock reading \<open>time.Now()\<close> is the
  argument \<open>now\<close>. A \<open>*cachedCredential\<close> and its \<open>*auth.Credential\<close> may be nil,
  hence the two options.
\<close>

type_synonym Time = int
type_synonym Duration = int

record 'c cachedCredential =
  cc_key :: string
  cc_expiredAt :: Time
  cc_cred :: "'c option"

definition Key :: "'c cachedCredential option \<Rightarrow> string" where
  "Key cred = (case cred of None \<Rightarrow> [] | Some c \<Rightarrow> cc_key c)"

definition IsExpired :: "'c cachedCredential option \<Rightarrow> Time \<Rightarrow> bool" where
  "IsExpired cred now =
     (case cred of
        None \<Rightarrow> True
      | Some c \<Rightarrow>
          if cc_cred c = None \<or> cc_expiredAt c = 0 then True
          else cc_expiredAt c < now)"

definition newCachedCredential ::
  "string \<Rightarrow> 'c option \<Rightarrow> Duration \<Rightarrow> Time \<Rightarrow> error + 'c cachedCredential" where
  "newCachedCredential k cred lifetime now =
     (case cred of
        None \<Rightarrow> Inl (Errorf ''credential is nil'' [])
      | Some _ \<Rightarrow> Inr \<lparr>cc_key = k, cc_expiredAt = now + lifetime, cc_cred = cred\<rparr>)"

section \<open>The agent's security module: the dRPC handler\<close>

text \<open>
  The module's own state is the list of flavors the server allows and the signing
  function chosen when the module was made. Everything the handler calls outside this
  file is a field of \<open>collaborators\<close>: the attach-info cache (the flavors of its response),
  the transport configuration's \<open>PrivateKey()\<close>, the request's
  \<open>InitCredentialRequest\<close> (the request as initialised, or the error), \<open>drpc.Marshal\<close>
  on the two response messages, the status values \<open>daos.MiscError\<close> and \<open>daos.BadCert\<close>,
  the Unix factory's flavor, \<open>proto.Unmarshal\<close> on the request, the registry
  \<open>auth.FlavorToFactory\<close> and the factories' \<open>AllocCredentialRequest\<close>.
\<close>

record 'c GetCredResp =
  GetCredResp_Status :: "32 word"
  GetCredResp_Cred :: "'c option"

record ('r, 'c) SecurityModule =
  signCredential :: "'r \<Rightarrow> error + 'c"
  validAuthFlavors :: "Flavor list"

record ('k, 'r, 'c) collaborators =
  GetAttachInfo :: "error + Flavor list"
  PrivateKey :: "error + 'k"
  InitCredentialRequest :: "'r \<Rightarrow> bytes \<Rightarrow> 'k \<Rightarrow> error + 'r"
  drpc_Marshal_GetCredResp :: "'c GetCredResp \<Rightarrow> error + bytes"
  drpc_Marshal_GetValidAuthResp :: "Flavor list \<Rightarrow> error + bytes"
  MiscError :: "32 word"
  BadCert :: "32 word"
  Unix_GetAuthFlavor :: Flavor
  Unmarshal_AuthArgs :: "bytes \<Rightarrow> error + AuthArgs"
  FlavorToFactory :: "Flavor \<rightharpoonup> CredentialRequestFactory"
  AllocCredentialRequest :: "CredentialRequestFactory \<Rightarrow> 'r"

text \<open>
  What a handler gives back: response bytes with a nil error, a nil response with an
  error, or a panic.
\<close>

datatype reply = Response bytes | Error error | Panic

datatype Method = MethodRequestCredentials | MethodRequestValidFlavors | OtherMethod "32 word"

text \<open>\<open>errors.Is\<close> walks the chain of wrapped errors.\<close>

fun errors_Is :: "error \<Rightarrow> error \<Rightarrow> bool" where
  "errors_Is (Wrap e msg args) target = (Wrap e msg args = target \<or> errors_Is e target)"
| "errors_Is e target = (e = target)"

text \<open>
  \<open>retrieveAuthFromServer\<close> copies the fetched list number by number into the module,
  each converted to a flavor (the same 32 bits), before it looks at the length. Log
  messages are left out of the handler throughout.
\<close>

definition retrieveAuthFromServer ::
  "('k, 'r, 'c) collaborators \<Rightarrow> ('r, 'c) SecurityModule
     \<Rightarrow> error option \<times> ('r, 'c) SecurityModule" where
  "retrieveAuthFromServer d m =
     (case GetAttachInfo d of
        Inl err \<Rightarrow> (Some (Wrap err ''failed to get attach info'' []), m)
      | Inr ValidAuthFlavors \<Rightarrow>
          (let m' = m\<lparr>validAuthFlavors := map (\<lambda>u. u) ValidAuthFlavors\<rparr>
           in if length (validAuthFlavors m') = 0
              then (Some (Errorf ''failed to receive valid authentication flavors from server.'' []), m')
              else (None, m')))"

definition drpc_reply :: "error + bytes \<Rightarrow> reply" where
  "drpc_reply r = (case r of Inl err \<Rightarrow> Error err | Inr b \<Rightarrow> Response b)"

definition credRespWithStatus :: "('k, 'r, 'c) collaborators \<Rightarrow> 32 word \<Rightarrow> reply" where
  "credRespWithStatus d status =
     drpc_reply (drpc_Marshal_GetCredResp d
       \<lparr>GetCredResp_Status = status, GetCredResp_Cred = None\<rparr>)"

definition getCredential ::
  "('k, 'r, 'c) collaborators \<Rightarrow> ('r, 'c) SecurityModule \<Rightarrow> AuthArgs \<Rightarrow> 'r
     \<Rightarrow> reply \<times> ('r, 'c) SecurityModule" where
  "getCredential d m args req =
     (case (if length (validAuthFlavors m) = 0 then retrieveAuthFromServer d m else (None, m)) of
        (Some err, m1) \<Rightarrow>
          (Error (Wrap err ''error in retrieving auth flavors from server'' []), m1)
      | (None, m1) \<Rightarrow>
          if AuthArgs_Flavor args \<notin> set (validAuthFlavors m1)
          then (Error (Errorf ''invalid authentication method: the method requested is not allowed by the server configuration.'' []), m1)
          else
            (case PrivateKey d of
               Inl err \<Rightarrow> (credRespWithStatus d (BadCert d), m1)
             | Inr signingKey \<Rightarrow>
                 (case InitCredentialRequest d req (AuthArgs_Data args) signingKey of
                    Inl err \<Rightarrow>
                      if errors_Is err (StatusErr (MiscError d))
                      then (case err of
                              StatusErr status \<Rightarrow> (credRespWithStatus d status, m1)
                            | _ \<Rightarrow> (Panic, m1))
                      else (Error err, m1)
                  | Inr req' \<Rightarrow>
                      (case signCredential m1 req' of
                         Inl err \<Rightarrow> (credRespWithStatus d (MiscError d), m1)
                       | Inr cred \<Rightarrow>
                           (drpc_reply (drpc_Marshal_GetCredResp d
                              \<lparr>GetCredResp_Status = 0, GetCredResp_Cred = Some cred\<rparr>), m1)))))"

definition getValidAuthFlavors ::
  "('k, 'r, 'c) collaborators \<Rightarrow> ('r, 'c) SecurityModule
     \<Rightarrow> reply \<times> ('r, 'c) SecurityModule" where
  "getValidAuthFlavors d m =
     (case (if length (validAuthFlavors m) = 0 then retrieveAuthFromServer d m else (None, m)) of
        (Some err, m1) \<Rightarrow>
          (Error (Wrap err ''error in retrieving auth flavors from server'' []), m1)
      | (None, m1) \<Rightarrow>
          (drpc_reply (drpc_Marshal_GetValidAuthResp d (validAuthFlavors m1)), m1))"

definition HandleCall ::
  "('k, 'r, 'c) collaborators \<Rightarrow> ('r, 'c) SecurityModule \<Rightarrow> Method \<Rightarrow> bytes
     \<Rightarrow> reply \<times> ('r, 'c) SecurityModule" where
  "HandleCall d m method reqb =
     (case getAuthArgs (Unix_GetAuthFlavor d) (Unmarshal_AuthArgs d) reqb of
        Inl err \<Rightarrow> (Error (Wrap err ''failed to parse request body'' []), m)
      | Inr args \<Rightarrow>
          (case FlavorToFactory d (AuthArgs_Flavor args) of
             None \<Rightarrow>
               (Error (Errorf ''failed to find flavor in flavor to factory map - check that authentcation specified by the server is supported in the agent.'' []), m)
           | Some factory \<Rightarrow>
               (case method of
                  MethodRequestCredentials \<Rightarrow>
                    getCredential d m args (AllocCredentialRequest d factory)
                | MethodRequestValidFlavors \<Rightarrow> getValidAuthFlavors d m
                | OtherMethod _ \<Rightarrow> (Error UnknownMethodFailure, m))))"

text \<open>
  \<open>GetMethod\<close>: \<open>Method_ID\<close> gives each method's \<open>ID()\<close>, values of package \<open>daos\<close>
  that are not at hand.
\<close>

definition String :: string where
  "String = ''agent_security''"

definition GetMethod :: "(Method \<Rightarrow> 32 word) \<Rightarrow> 32 word \<Rightarrow> error + Method" where
  "GetMethod Method_ID id' =
     (if id' = Method_ID MethodRequestCredentials then Inr MethodRequestCredentials
      else Inl (Errorf ''invalid method ID %d for module %s'' [ArgD id', ArgS String]))"

section \<open>An example environment\<close>

text \<open>
  A small concrete set of collaborators on which the theorems below are run: the server
  allows flavor 1 only, the registry knows flavors 1 and 2, the Unix factory has flavor 1,
  no signing key can be read, and the marshaller of credential responses answers with a
  first byte that tells apart a credential, the bad-certificate status, the miscellaneous
  status and any other status. Keys, requests and credentials are byte strings here.
\<close>

definition example_collaborators :: "(bytes, bytes, bytes) collaborators" where
  "example_collaborators =
     \<lparr>GetAttachInfo = Inr [1],
      PrivateKey = Inl (Errorf ''no certificate'' []),
      InitCredentialRequest = (\<lambda>r b k. Inr r),
      drpc_Marshal_GetCredResp =
        (\<lambda>r. Inr (case GetCredResp_Cred r of
                     Some c \<Rightarrow> 0 # c
                   | None \<Rightarrow>
                       if GetCredResp_Status r = 1036 then [1]
                       else if GetCredResp_Status r = 1025 then [2]
                       else [3])),
      drpc_Marshal_GetValidAuthResp = (\<lambda>fs. Inr [2]),
      MiscError = 1025,
      BadCert = 1036,
      Unix_GetAuthFlavor = 1,
      Unmarshal_AuthArgs =
        (\<lambda>b. case b of
               [f] \<Rightarrow> Inr \<lparr>AuthArgs_Flavor = ucast f, AuthArgs_Data = []\<rparr>
             | _ \<Rightarrow> Inl (Errorf ''proto: cannot parse'' [])),
      FlavorToFactory = [1 \<mapsto> CredentialRequestUnix, 2 \<mapsto> CredentialRequestAM],
      AllocCredentialRequest = (\<lambda>f. [])\<rparr>"

definition example_module :: "Flavor list \<Rightarrow> (bytes, bytes) SecurityModule" where
  "example_module fs = \<lparr>signCredential = (\<lambda>r. Inr r), validAuthFlavors = fs\<rparr>"

definition example_signer :: "unit TokenSigner" where
  "example_signer = \<lparr>Hash = (\<lambda>b. Inr (rev b)), Sign = (\<lambda>k b. Inr b), Verify = (\<lambda>k b s. None)\<rparr>"

definition example_marshal :: "Token \<Rightarrow> error + bytes" where
  "example_marshal t = Inr (ucast (Token_Flavor t) # Token_Data t)"

definition example_Flavor_value :: "string \<rightharpoonup> Flavor" where
  "example_Flavor_value = [''AUTH_NONE'' \<mapsto> 0, ''AUTH_SYS'' \<mapsto> 1, ''AUTH_AM'' \<mapsto> 2]"

definition example_Method_ID :: "Method \<Rightarrow> 32 word" where
  "example_Method_ID meth =
     (case meth of
        MethodRequestCredentials \<Rightarrow> 101
      | MethodRequestValidFlavors \<Rightarrow> 102
      | OtherMethod x \<Rightarrow> x)"

definition example_GetAuthFlavor :: "CredentialRequestFactory \<Rightarrow> Flavor" where
  "example_GetAuthFlavor f = (case f of CredentialRequestUnix \<Rightarrow> 1 | CredentialRequestAM \<Rightarrow> 2)"

section \<open>The loops, characterised\<close>

lemma ParseValidAuthFlavors_loop_inv:
  assumes "i \<le> length authStrings" "length acc = length authStrings"
  shows "ParseValidAuthFlavors_loop fv authStrings i acc =
     (case find (\<lambda>n. fv (''AUTH_'' @ n) = None) (drop i authStrings) of
        Some n \<Rightarrow> Inl (Errorf ''auth string %s is not recognized'' [ArgS n])
      | None \<Rightarrow> Inr (take i acc @ map (\<lambda>n. the (fv (''AUTH_'' @ n))) (drop i authStrings)))"
  using assms
proof (induction fv authStrings i acc rule: ParseValidAuthFlavors_loop.induct)
  case (1 fv authStrings i acc)
  note unfold = ParseValidAuthFlavors_loop.simps
  show ?case
  proof (cases "i < length authStrings")
    case False
    with "1.prems" show ?thesis by (simp add: unfold)
  next
    case True
    then have d: "drop i authStrings = authStrings ! i # drop (Suc i) authStrings"
      by (simp add: Cons_nth_drop_Suc)
    show ?thesis
    proof (cases "fv (''AUTH_'' @ authStrings ! i)")
      case None
      with True d show ?thesis by (simp add: unfold)
    next
      case (Some flavor)
      have ih: "ParseValidAuthFlavors_loop fv authStrings (i + 1) (acc[i := flavor]) =
         (case find (\<lambda>n. fv (''AUTH_'' @ n) = None) (drop (i + 1) authStrings) of
            Some n \<Rightarrow> Inl (Errorf ''auth string %s is not recognized'' [ArgS n])
          | None \<Rightarrow> Inr (take (i + 1) (acc[i := flavor]) @
                         map (\<lambda>n. the (fv (''AUTH_'' @ n))) (drop (i + 1) authStrings)))"
        using "1.IH"[OF True Some] True "1.prems" by simp
      have tk: "take (i + 1) (acc[i := flavor]) = take i acc @ [flavor]"
        using True "1.prems" by (simp add: take_Suc_conv_app_nth)
      show ?thesis
        using True Some d ih tk by (simp add: unfold split: option.splits)
    qed
  qed
qed

lemma ParseValidAuthFlavors_char:
  "ParseValidAuthFlavors fv names =
     (case find (\<lambda>n. fv (''AUTH_'' @ n) = None) names of
        Some n \<Rightarrow> Inl (Errorf ''auth string %s is not recognized'' [ArgS n])
      | None \<Rightarrow> Inr (map (\<lambda>n. the (fv (''AUTH_'' @ n))) names))"
  unfolding ParseValidAuthFlavors_def
  by (subst ParseValidAuthFlavors_loop_inv) (simp_all split: option.splits)

lemma generateAuthMap_loop_panics:
  "isl (generateAuthMap_loop gf fn fs am) \<longleftrightarrow>
     \<not> (distinct (map gf fs) \<and> gf ` set fs \<inter> dom am = {})"
  by (induction fs arbitrary: am) (auto simp: Let_def split: option.splits)

lemma generateAuthMap_loop_result:
  "generateAuthMap_loop gf fn fs am = Inr am' \<Longrightarrow>
     (\<forall>f\<in>set fs. am' (gf f) = Some f) \<and> dom am' = dom am \<union> gf ` set fs
     \<and> (\<forall>k. k \<notin> gf ` set fs \<longrightarrow> am' k = am k)"
proof (induction fs arbitrary: am)
  case Nil
  then show ?case by simp
next
  case (Cons f fs)
  from Cons.prems have none: "am (gf f) = None"
    and rest: "generateAuthMap_loop gf fn fs (am(gf f \<mapsto> f)) = Inr am'"
    by (auto simp: Let_def split: option.splits)
  from rest have nin: "distinct (map gf fs) \<and> gf ` set fs \<inter> dom (am(gf f \<mapsto> f)) = {}"
    using generateAuthMap_loop_panics[of gf fn fs "am(gf f \<mapsto> f)"] by simp
  note ih = Cons.IH[OF rest]
  have "gf f \<notin> gf ` set fs" using nin by auto
  then have "am' (gf f) = Some f" using ih by simp
  moreover have "\<forall>g\<in>set fs. am' (gf g) = Some g" using ih by blast
  moreover have "dom am' = dom am \<union> gf ` set (f # fs)" using ih by auto
  moreover have "\<forall>k. k \<notin> gf ` set (f # fs) \<longrightarrow> am' k = am k" using ih by auto
  ultimately show ?case by simp
qed

lemma find_first:
  "(\<forall>p\<in>set pre. \<not> P p) \<Longrightarrow> P n \<Longrightarrow> find P (pre @ n # post) = Some n"
  by (induction pre) auto

section \<open>Cached credentials expire strictly after their expiration time\<close>

text \<open>
  C1, as stated: an entry made at \<open>t0\<close> with lifetime \<open>L\<close> is fresh before \<open>t0 + L\<close> and
  expired at or after \<open>t0 + L\<close>. At the instant \<open>t0 + L\<close> itself \<open>IsExpired\<close> answers
  false, since \<open>After\<close> is strict: an entry made at 100 with lifetime 5 is still fresh at 105.
\<close>

theorem IsExpired_boundary_counterexample:
  "newCachedCredential ''user'' (Some [1::8 word]) 5 100 =
     Inr \<lparr>cc_key = ''user'', cc_expiredAt = 105, cc_cred = Some [1]\<rparr>
   \<and> (100::int) + 5 \<le> 105
   \<and> \<not> IsExpired (Some \<lparr>cc_key = ''user'', cc_expiredAt = 105, cc_cred = Some [1::8 word]\<rparr>) 105"
  by (simp add: newCachedCredential_def IsExpired_def)

text \<open>
  C1, amended: an entry made by \<open>newCachedCredential\<close> at \<open>t0\<close> with lifetime \<open>L\<close> is
  fresh at every time up to and including \<open>t0 + L\<close> (when \<open>t0 + L\<close> is not the zero time),
  and expired at every time strictly after \<open>t0 + L\<close>; an entry whose expiration is the
  zero time is always expired.
\<close>

theorem IsExpired_after_expiration:
  assumes "newCachedCredential k cred lifetime t0 = Inr cc"
  shows "(t0 + lifetime \<noteq> 0 \<and> now \<le> t0 + lifetime \<longrightarrow> \<not> IsExpired (Some cc) now)
       \<and> (t0 + lifetime < now \<longrightarrow> IsExpired (Some cc) now)
       \<and> (t0 + lifetime = 0 \<longrightarrow> IsExpired (Some cc) now)"
  using assms by (auto simp: newCachedCredential_def IsExpired_def split: option.splits)

theorem IsExpired_after_expiration_witness:
  "newCachedCredential ''user'' (Some [1::8 word]) 5 100 =
     Inr \<lparr>cc_key = ''user'', cc_expiredAt = 105, cc_cred = Some [1]\<rparr>
   \<and> \<not> IsExpired (Some \<lparr>cc_key = ''user'', cc_expiredAt = 105, cc_cred = Some [1::8 word]\<rparr>) 104
   \<and> \<not> IsExpired (Some \<lparr>cc_key = ''user'', cc_expiredAt = 105, cc_cred = Some [1::8 word]\<rparr>) 105
   \<and> IsExpired (Some \<lparr>cc_key = ''user'', cc_expiredAt = 105, cc_cred = Some [1::8 word]\<rparr>) 106"
proof -
  have c: "newCachedCredential ''user'' (Some [1::8 word]) 5 100 =
     Inr \<lparr>cc_key = ''user'', cc_expiredAt = 105, cc_cred = Some [1]\<rparr>"
    by (simp add: newCachedCredential_def)
  show ?thesis
    using c IsExpired_after_expiration[OF c, of 104] IsExpired_after_expiration[OF c, of 105]
      IsExpired_after_expiration[OF c, of 106]
    by simp
qed

section \<open>The registry of factories\<close>

text \<open>
  C4: \<open>generateAuthMap\<close> panics exactly when two entries of the factory list report the
  same flavor (the list of reported flavors has a repetition); when they are all distinct it
  returns a map that binds the flavor of every listed factory to that factory, and nothing
  else.
\<close>

theorem generateAuthMap_panics_iff_duplicate:
  "(isl (generateAuthMap GetAuthFlavor Flavor_name fs) \<longleftrightarrow> \<not> distinct (map GetAuthFlavor fs))
   \<and> (distinct (map GetAuthFlavor fs) \<longrightarrow>
        (\<exists>am. generateAuthMap GetAuthFlavor Flavor_name fs = Inr am
           \<and> (\<forall>f\<in>set fs. am (GetAuthFlavor f) = Some f)
           \<and> dom am = GetAuthFlavor ` set fs))"
proof -
  have p: "isl (generateAuthMap GetAuthFlavor Flavor_name fs) \<longleftrightarrow> \<not> distinct (map GetAuthFlavor fs)"
    unfolding generateAuthMap_def by (simp add: generateAuthMap_loop_panics)
  have "\<exists>am. generateAuthMap GetAuthFlavor Flavor_name fs = Inr am
           \<and> (\<forall>f\<in>set fs. am (GetAuthFlavor f) = Some f)
           \<and> dom am = GetAuthFlavor ` set fs" if d: "distinct (map GetAuthFlavor fs)"
  proof -
    from p d obtain am where am: "generateAuthMap GetAuthFlavor Flavor_name fs = Inr am"
      by (cases "generateAuthMap GetAuthFlavor Flavor_name fs") auto
    then have "generateAuthMap_loop GetAuthFlavor Flavor_name fs Map.empty = Inr am"
      by (simp add: generateAuthMap_def)
    from generateAuthMap_loop_result[OF this] am show ?thesis by simp
  qed
  with p show ?thesis by blast
qed

theorem generateAuthMap_panics_iff_duplicate_witness:
  "distinct (map example_GetAuthFlavor [CredentialRequestUnix, CredentialRequestAM])
   \<and> (\<exists>am. generateAuthMap example_GetAuthFlavor Map.empty
              [CredentialRequestUnix, CredentialRequestAM] = Inr am
         \<and> am 1 = Some CredentialRequestUnix \<and> am 2 = Some CredentialRequestAM)
   \<and> \<not> distinct (map (\<lambda>f. 1 :: Flavor) [CredentialRequestUnix, CredentialRequestAM])
   \<and> isl (generateAuthMap (\<lambda>f. 1) Map.empty [CredentialRequestUnix, CredentialRequestAM])"
proof -
  have d: "distinct (map example_GetAuthFlavor [CredentialRequestUnix, CredentialRequestAM])"
    by (simp add: example_GetAuthFlavor_def)
  have e: "example_GetAuthFlavor CredentialRequestUnix = 1"
      "example_GetAuthFlavor CredentialRequestAM = 2"
    by (simp_all add: example_GetAuthFlavor_def)
  from generateAuthMap_panics_iff_duplicate
    [of example_GetAuthFlavor Map.empty "[CredentialRequestUnix, CredentialRequestAM]"] d
  obtain am where "generateAuthMap example_GetAuthFlavor Map.empty
              [CredentialRequestUnix, CredentialRequestAM] = Inr am"
    "\<forall>f\<in>set [CredentialRequestUnix, CredentialRequestAM]. am (example_GetAuthFlavor f) = Some f"
    by blast
  then have "\<exists>am. generateAuthMap example_GetAuthFlavor Map.empty
              [CredentialRequestUnix, CredentialRequestAM] = Inr am
         \<and> am 1 = Some CredentialRequestUnix \<and> am 2 = Some CredentialRequestAM"
    using e by auto
  moreover have "isl (generateAuthMap (\<lambda>f. 1) Map.empty [CredentialRequestUnix, CredentialRequestAM])"
    using generateAuthMap_panics_iff_duplicate
      [of "\<lambda>f. 1" Map.empty "[CredentialRequestUnix, CredentialRequestAM]"] by simp
  ultimately show ?thesis using d by simp
qed

section \<open>Parsing the configured flavor names\<close>

text \<open>
  C8: a name is recognised when the table has the name prefixed with \<open>AUTH_\<close>.
  \<open>ParseValidAuthFlavors\<close> fails at the first name that is not recognised, with the
  error that carries this name and with no list; when every name is recognised it returns
  one flavor per name, in the order of the input.
\<close>

theorem ParseValidAuthFlavors_all_or_nothing:
  "(\<forall>pre n post. names = pre @ n # post
        \<and> (\<forall>p\<in>set pre. Flavor_value (''AUTH_'' @ p) \<noteq> None)
        \<and> Flavor_value (''AUTH_'' @ n) = None \<longrightarrow>
        ParseValidAuthFlavors Flavor_value names =
          Inl (Errorf ''auth string %s is not recognized'' [ArgS n]))
   \<and> ((\<forall>n\<in>set names. Flavor_value (''AUTH_'' @ n) \<noteq> None) \<longrightarrow>
        (\<exists>fl. ParseValidAuthFlavors Flavor_value names = Inr fl
           \<and> length fl = length names
           \<and> (\<forall>i<length names. Flavor_value (''AUTH_'' @ names ! i) = Some (fl ! i))))"
proof -
  let ?bad = "\<lambda>n. Flavor_value (''AUTH_'' @ n) = None"
  have a: "ParseValidAuthFlavors Flavor_value names =
          Inl (Errorf ''auth string %s is not recognized'' [ArgS n])"
    if "names = pre @ n # post" "\<forall>p\<in>set pre. \<not> ?bad p" "?bad n" for pre n post
  proof -
    have "find ?bad names = Some n"
      using that by (simp add: find_first)
    then show ?thesis by (simp add: ParseValidAuthFlavors_char)
  qed
  have b: "\<exists>fl. ParseValidAuthFlavors Flavor_value names = Inr fl
           \<and> length fl = length names
           \<and> (\<forall>i<length names. Flavor_value (''AUTH_'' @ names ! i) = Some (fl ! i))"
    if "\<forall>n\<in>set names. \<not> ?bad n"
  proof -
    have "find ?bad names = None" using that by (simp add: find_None_iff)
    then have "ParseValidAuthFlavors Flavor_value names =
       Inr (map (\<lambda>n. the (Flavor_value (''AUTH_'' @ n))) names)"
      by (simp add: ParseValidAuthFlavors_char)
    moreover have "\<forall>i<length names. Flavor_value (''AUTH_'' @ names ! i) =
        Some (map (\<lambda>n. the (Flavor_value (''AUTH_'' @ n))) names ! i)"
      using that by auto
    ultimately show ?thesis by simp
  qed
  from a b show ?thesis by blast
qed

theorem ParseValidAuthFlavors_all_or_nothing_witness:
  "ParseValidAuthFlavors example_Flavor_value [''SYS'', ''KRB'', ''AM''] =
     Inl (Errorf ''auth string %s is not recognized'' [ArgS ''KRB''])
   \<and> example_Flavor_value (''AUTH_'' @ ''AM'') \<noteq> None
   \<and> example_Flavor_value (''AUTH_'' @ ''SYS'') \<noteq> None
   \<and> (\<exists>fl. ParseValidAuthFlavors example_Flavor_value [''AM'', ''SYS''] = Inr fl
         \<and> length fl = 2 \<and> fl ! 0 = 2 \<and> fl ! 1 = 1)"
proof -
  have ok: "\<forall>n\<in>set [''AM'', ''SYS'']. example_Flavor_value (''AUTH_'' @ n) \<noteq> None"
    by (simp add: example_Flavor_value_def)
  have first: "[''SYS'', ''KRB'', ''AM''] = [''SYS''] @ ''KRB'' # [''AM'']
      \<and> (\<forall>p\<in>set [''SYS'']. example_Flavor_value (''AUTH_'' @ p) \<noteq> None)
      \<and> example_Flavor_value (''AUTH_'' @ ''KRB'') = None"
    by (simp add: example_Flavor_value_def)
  have bad: "ParseValidAuthFlavors example_Flavor_value [''SYS'', ''KRB'', ''AM''] =
     Inl (Errorf ''auth string %s is not recognized'' [ArgS ''KRB''])"
    using ParseValidAuthFlavors_all_or_nothing
      [of "[''SYS'', ''KRB'', ''AM'']" example_Flavor_value] first by blast
  from ParseValidAuthFlavors_all_or_nothing [of "[''AM'', ''SYS'']" example_Flavor_value] ok
  obtain fl where fl: "ParseValidAuthFlavors example_Flavor_value [''AM'', ''SYS''] = Inr fl"
      "length fl = length [''AM'', ''SYS'']"
      "\<forall>i<length [''AM'', ''SYS'']. example_Flavor_value (''AUTH_'' @ [''AM'', ''SYS''] ! i) = Some (fl ! i)"
    by blast
  from fl(3)[rule_format, of 0] fl(3)[rule_format, of 1]
  have "example_Flavor_value (''AUTH_'' @ [''AM'', ''SYS''] ! 0) = Some (fl ! 0)"
    "example_Flavor_value (''AUTH_'' @ [''AM'', ''SYS''] ! 1) = Some (fl ! 1)"
    by simp_all
  then have "fl ! 0 = 2" "fl ! 1 = 1"
    by (simp_all add: example_Flavor_value_def)
  with fl(1,2) bad ok show ?thesis by auto
qed

section \<open>Verifying tokens\<close>

text \<open>
  C2: for every token, verifier, key (nil or not) and valid list that does not hold the
  token's flavor, \<open>VerifyToken\<close> returns an error, never nil: the unsupported-flavor error
  whenever \<open>proto.Marshal\<close> gives the token's bytes. The answer is the same for every
  signer, key and verifier, so no hash and no signature check takes part in it, also when
  the verifier is the digest or a signature of the token.
\<close>

theorem VerifyToken_flavor_checked_first:
  assumes "Token_Flavor t \<notin> set valid"
  shows "(\<forall>tb. marshal t = Inr tb \<longrightarrow>
            VerifyToken marshal signer k t sig valid =
              Some (Errorf ''token has authentication flavor not supported by server.'' []))
         \<and> VerifyToken marshal signer k t sig valid \<noteq> None
         \<and> VerifyToken marshal signer' k' t sig' valid =
           VerifyToken marshal signer k t sig valid"
  using assms by (cases "marshal t") (simp_all add: VerifyToken_def)

theorem VerifyToken_flavor_checked_first_witness:
  "example_marshal \<lparr>Token_Flavor = 2, Token_Data = [7]\<rparr> = Inr [2, 7]
   \<and> Token_Flavor \<lparr>Token_Flavor = 2, Token_Data = [7]\<rparr> \<notin> set [1, 3 :: Flavor]
   \<and> Hash example_signer [2, 7] = Inr [7, 2]
   \<and> VerifyToken example_marshal example_signer None \<lparr>Token_Flavor = 2, Token_Data = [7]\<rparr>
        [7, 2] [1, 3] =
      Some (Errorf ''token has authentication flavor not supported by server.'' [])
   \<and> VerifyToken example_marshal example_signer (Some ())
        \<lparr>Token_Flavor = 2, Token_Data = [7]\<rparr> [2, 7] [1, 3] =
      Some (Errorf ''token has authentication flavor not supported by server.'' [])"
proof -
  let ?t = "\<lparr>Token_Flavor = 2, Token_Data = [7]\<rparr>"
  have m: "example_marshal ?t = Inr [2, 7]"
    by (simp add: example_marshal_def)
  have f: "Token_Flavor ?t \<notin> set [1, 3 :: Flavor]"
    by simp
  have h: "Hash example_signer [2, 7] = Inr [7, 2]"
    by (simp add: example_signer_def)
  note inst = VerifyToken_flavor_checked_first
    [where t = ?t and valid = "[1, 3]" and marshal = example_marshal
       and signer = example_signer and signer' = example_signer, OF f]
  have a: "VerifyToken example_marshal example_signer None ?t [7, 2] [1, 3] =
      Some (Errorf ''token has authentication flavor not supported by server.'' [])"
    using inst[where k = None and sig = "[7, 2]" and k' = None and sig' = "[7, 2]"] m by blast
  have b: "VerifyToken example_marshal example_signer (Some ()) ?t [2, 7] [1, 3] =
      Some (Errorf ''token has authentication flavor not supported by server.'' [])"
    using inst[where k = "Some ()" and sig = "[2, 7]" and k' = None and sig' = "[7, 2]"] m
    by blast
  from m f h a b show ?thesis by (intro conjI)
qed



text \<open>
  C9: \<open>AuthSysFromAuthToken\<close> refuses every token whose flavor is not \<open>AUTH_SYS\<close> with the
  invalid-token error, returns an identity only for an \<open>AUTH_SYS\<close> token whose data
  deserialises (and then that identity), and wraps the deserialisation error otherwise.
\<close>

theorem AuthSysFromAuthToken_flavor_gate:
  "(Token_Flavor t \<noteq> Flavor_AUTH_SYS \<longrightarrow>
      AuthSysFromAuthToken Flavor_AUTH_SYS unmarshal t =
        Inl (Errorf ''Attempting to convert an invalid AuthSys Token'' []))
   \<and> (\<forall>s. AuthSysFromAuthToken Flavor_AUTH_SYS unmarshal t = Inr s \<longrightarrow>
          Token_Flavor t = Flavor_AUTH_SYS \<and> unmarshal (Token_Data t) = Inr s)
   \<and> (\<forall>e. Token_Flavor t = Flavor_AUTH_SYS \<and> unmarshal (Token_Data t) = Inl e \<longrightarrow>
          AuthSysFromAuthToken Flavor_AUTH_SYS unmarshal t =
            Inl (Wrap e ''unmarshaling %s'' [ArgF Flavor_AUTH_SYS]))
   \<and> (\<forall>s. Token_Flavor t = Flavor_AUTH_SYS \<and> unmarshal (Token_Data t) = Inr s \<longrightarrow>
          AuthSysFromAuthToken Flavor_AUTH_SYS unmarshal t = Inr s)"
  by (auto simp: AuthSysFromAuthToken_def split: sum.splits if_splits)

theorem AuthSysFromAuthToken_flavor_gate_witness:
  "AuthSysFromAuthToken 1 (\<lambda>b. if b = [] then Inl (Errorf ''proto: cannot parse'' []) else Inr (length b))
      \<lparr>Token_Flavor = 2, Token_Data = [5]\<rparr> =
        Inl (Errorf ''Attempting to convert an invalid AuthSys Token'' [])
   \<and> AuthSysFromAuthToken 1 (\<lambda>b. if b = [] then Inl (Errorf ''proto: cannot parse'' []) else Inr (length b))
      \<lparr>Token_Flavor = 1, Token_Data = []\<rparr> =
        Inl (Wrap (Errorf ''proto: cannot parse'' []) ''unmarshaling %s'' [ArgF 1])
   \<and> AuthSysFromAuthToken 1 (\<lambda>b. if b = [] then Inl (Errorf ''proto: cannot parse'' []) else Inr (length b))
      \<lparr>Token_Flavor = 1, Token_Data = [5]\<rparr> = Inr 1"
proof -
  let ?um = "\<lambda>b::bytes. if b = [] then Inl (Errorf ''proto: cannot parse'' []) else Inr (length b)"
  have other: "Token_Flavor \<lparr>Token_Flavor = 2, Token_Data = [5]\<rparr> \<noteq> 1" by simp
  have bad: "Token_Flavor \<lparr>Token_Flavor = 1, Token_Data = []\<rparr> = 1
      \<and> ?um (Token_Data \<lparr>Token_Flavor = 1, Token_Data = []\<rparr>) = Inl (Errorf ''proto: cannot parse'' [])"
    by simp
  have good: "Token_Flavor \<lparr>Token_Flavor = 1, Token_Data = [5]\<rparr> = 1
      \<and> ?um (Token_Data \<lparr>Token_Flavor = 1, Token_Data = [5]\<rparr>) = Inr 1"
    by simp
  have a: "AuthSysFromAuthToken 1 ?um \<lparr>Token_Flavor = 2, Token_Data = [5]\<rparr> =
        Inl (Errorf ''Attempting to convert an invalid AuthSys Token'' [])"
    using AuthSysFromAuthToken_flavor_gate
      [of "\<lparr>Token_Flavor = 2, Token_Data = [5]\<rparr>" 1 ?um, THEN conjunct1] other by blast
  have b: "AuthSysFromAuthToken 1 ?um \<lparr>Token_Flavor = 1, Token_Data = []\<rparr> =
        Inl (Wrap (Errorf ''proto: cannot parse'' []) ''unmarshaling %s'' [ArgF 1])"
    using AuthSysFromAuthToken_flavor_gate
      [of "\<lparr>Token_Flavor = 1, Token_Data = []\<rparr>" 1 ?um,
        THEN conjunct2, THEN conjunct2, THEN conjunct1, rule_format, OF bad] .
  have c: "AuthSysFromAuthToken 1 ?um \<lparr>Token_Flavor = 1, Token_Data = [5]\<rparr> = Inr 1"
    using AuthSysFromAuthToken_flavor_gate
      [of "\<lparr>Token_Flavor = 1, Token_Data = [5]\<rparr>" 1 ?um,
        THEN conjunct2, THEN conjunct2, THEN conjunct2, rule_format, OF good] .
  from a b c show ?thesis by (intro conjI)
qed

section \<open>The handler\<close>

text \<open>
  C5: on the empty payload \<open>getAuthArgs\<close> returns, without error, arguments with the Unix
  factory's flavor and no data, so \<open>HandleCall\<close> goes on to the registry and the method
  with these arguments; on a payload that is not empty the arguments are what unmarshaling
  gives, and a payload that does not unmarshal gets the unmarshaling-payload failure.
\<close>

theorem getAuthArgs_empty_payload_default:
  "getAuthArgs u unmarshal [] = Inr \<lparr>AuthArgs_Flavor = u, AuthArgs_Data = []\<rparr>
   \<and> (reqb \<noteq> [] \<longrightarrow>
        getAuthArgs u unmarshal reqb =
          (case unmarshal reqb of
             Inl e \<Rightarrow> Inl UnmarshalingPayloadFailure
           | Inr a \<Rightarrow> Inr a))
   \<and> HandleCall d m method [] =
        (case FlavorToFactory d (Unix_GetAuthFlavor d) of
           None \<Rightarrow>
             (Error (Errorf ''failed to find flavor in flavor to factory map - check that authentcation specified by the server is supported in the agent.'' []), m)
         | Some factory \<Rightarrow>
             (case method of
                MethodRequestCredentials \<Rightarrow>
                  getCredential d m \<lparr>AuthArgs_Flavor = Unix_GetAuthFlavor d, AuthArgs_Data = []\<rparr>
                    (AllocCredentialRequest d factory)
              | MethodRequestValidFlavors \<Rightarrow> getValidAuthFlavors d m
              | OtherMethod x \<Rightarrow> (Error UnknownMethodFailure, m)))"
  by (simp add: getAuthArgs_def HandleCall_def split: sum.splits option.splits)

theorem getAuthArgs_empty_payload_default_witness:
  "getAuthArgs 1 (Unmarshal_AuthArgs example_collaborators) [] =
     Inr \<lparr>AuthArgs_Flavor = 1, AuthArgs_Data = []\<rparr>
   \<and> [2] \<noteq> ([] :: bytes)
   \<and> getAuthArgs 1 (Unmarshal_AuthArgs example_collaborators) [2] =
     Inr \<lparr>AuthArgs_Flavor = 2, AuthArgs_Data = []\<rparr>
   \<and> [2, 3] \<noteq> ([] :: bytes)
   \<and> getAuthArgs 1 (Unmarshal_AuthArgs example_collaborators) [2, 3] =
     Inl UnmarshalingPayloadFailure
   \<and> HandleCall example_collaborators (example_module [1]) MethodRequestValidFlavors [] =
     (Response [2], example_module [1])"
proof -
  let ?um = "Unmarshal_AuthArgs example_collaborators"
  have u1: "?um [2] = Inr \<lparr>AuthArgs_Flavor = 2, AuthArgs_Data = []\<rparr>"
    and u2: "?um [2, 3] = Inl (Errorf ''proto: cannot parse'' [])"
    by (simp_all add: example_collaborators_def)
  have a: "getAuthArgs 1 ?um [] = Inr \<lparr>AuthArgs_Flavor = 1, AuthArgs_Data = []\<rparr>"
    using getAuthArgs_empty_payload_default
      [of 1 ?um "[]" example_collaborators "example_module [1]" MethodRequestValidFlavors]
    by blast
  have b: "getAuthArgs 1 ?um [2] = Inr \<lparr>AuthArgs_Flavor = 2, AuthArgs_Data = []\<rparr>"
    using getAuthArgs_empty_payload_default
      [of 1 ?um "[2]" example_collaborators "example_module [1]" MethodRequestValidFlavors] u1
    by simp
  have c: "getAuthArgs 1 ?um [2, 3] = Inl UnmarshalingPayloadFailure"
    using getAuthArgs_empty_payload_default
      [of 1 ?um "[2, 3]" example_collaborators "example_module [1]" MethodRequestValidFlavors] u2
    by simp
  have f: "FlavorToFactory example_collaborators (Unix_GetAuthFlavor example_collaborators) =
      Some CredentialRequestUnix"
    by (simp add: example_collaborators_def)
  have g: "getValidAuthFlavors example_collaborators (example_module [1]) =
      (Response [2], example_module [1])"
    by (simp add: getValidAuthFlavors_def example_module_def example_collaborators_def
        drpc_reply_def)
  have h: "HandleCall example_collaborators (example_module [1]) MethodRequestValidFlavors [] =
     (Response [2], example_module [1])"
    using getAuthArgs_empty_payload_default
      [of 1 ?um "[]" example_collaborators "example_module [1]" MethodRequestValidFlavors]
      f g by simp
  from a b c h show ?thesis by simp
qed

text \<open>
  C6: when \<open>getCredential\<close> has a populated list of valid flavors that holds the requested
  flavor and \<open>PrivateKey()\<close> fails, it returns what marshaling the response with status
  \<open>daos.BadCert\<close> and no credential returns: these bytes, with no error, whenever the
  marshaler gives bytes. The client can tell this answer from every other one: when
  \<open>daos.BadCert\<close> is not \<open>daos.MiscError\<close> and the bytes of the bad-certificate response
  are the bytes of no other response, \<open>getCredential\<close> answers with these bytes in this case
  only, and not when the flavors cannot be fetched, the flavor is refused, the request
  does not initialise, signing fails or a credential is made.
\<close>

theorem getCredential_bad_certificate:
  assumes "m1 = (if validAuthFlavors m = []
                 then snd (retrieveAuthFromServer (d :: ('k, 'r, 'c) collaborators) m) else m)"
  shows "((validAuthFlavors m = [] \<longrightarrow> fst (retrieveAuthFromServer d m) = None)
          \<and> AuthArgs_Flavor args \<in> set (validAuthFlavors m1)
          \<and> PrivateKey d = Inl err \<longrightarrow>
            getCredential d m args req = (credRespWithStatus d (BadCert d), m1)
            \<and> (\<forall>b. drpc_Marshal_GetCredResp d
                     \<lparr>GetCredResp_Status = BadCert d, GetCredResp_Cred = None\<rparr> = Inr b \<longrightarrow>
                   getCredential d m args req = (Response b, m1)))
    \<and> (BadCert d \<noteq> MiscError d
        \<and> drpc_Marshal_GetCredResp d
             \<lparr>GetCredResp_Status = BadCert d, GetCredResp_Cred = None\<rparr> = Inr bad
        \<and> (\<forall>r. drpc_Marshal_GetCredResp d r = Inr bad \<longrightarrow>
               r = \<lparr>GetCredResp_Status = BadCert d, GetCredResp_Cred = None\<rparr>) \<longrightarrow>
          (fst (getCredential d m args req) = Response bad \<longleftrightarrow>
             (validAuthFlavors m = [] \<longrightarrow> fst (retrieveAuthFromServer d m) = None)
             \<and> AuthArgs_Flavor args \<in> set (validAuthFlavors m1)
             \<and> (\<exists>e. PrivateKey d = Inl e)))"
proof -
  let ?bad = "\<lparr>GetCredResp_Status = BadCert d, GetCredResp_Cred = (None :: 'c option)\<rparr>"
  let ?fetch = "if validAuthFlavors m = [] then retrieveAuthFromServer d m else (None, m)"
  have snd_fetch: "snd ?fetch = m1"
    using assms by simp
  have on_failure: "getCredential d m args req = (credRespWithStatus d (BadCert d), m1)"
    if "validAuthFlavors m = [] \<longrightarrow> fst (retrieveAuthFromServer d m) = None"
      and "AuthArgs_Flavor args \<in> set (validAuthFlavors m1)" and "PrivateKey d = Inl e"
    for e
  proof -
    have "?fetch = (None, m1)"
      using that(1) snd_fetch by (cases "retrieveAuthFromServer d m") (auto split: if_splits)
    with that(2,3) show ?thesis by (simp add: getCredential_def)
  qed
  have bytes: "getCredential d m args req = (Response b, m1)"
    if "getCredential d m args req = (credRespWithStatus d (BadCert d), m1)"
      and "drpc_Marshal_GetCredResp d ?bad = Inr b" for b
    using that by (simp add: credRespWithStatus_def drpc_reply_def)
  have only: "(validAuthFlavors m = [] \<longrightarrow> fst (retrieveAuthFromServer d m) = None)
      \<and> AuthArgs_Flavor args \<in> set (validAuthFlavors m1) \<and> (\<exists>e. PrivateKey d = Inl e)"
    if ne: "BadCert d \<noteq> MiscError d"
      and uniq: "\<forall>r. drpc_Marshal_GetCredResp d r = Inr bad \<longrightarrow> r = ?bad"
      and got: "fst (getCredential d m args req) = Response bad"
  proof -
    obtain e0 m0 where fetch: "?fetch = (e0, m0)" by (cases ?fetch)
    with snd_fetch have m0: "m0 = m1" by simp
    have e0: "e0 = None"
      using got fetch by (cases e0) (simp_all add: getCredential_def)
    have fetched: "validAuthFlavors m = [] \<longrightarrow> fst (retrieveAuthFromServer d m) = None"
      using fetch e0 by (auto split: if_splits)
    have member: "AuthArgs_Flavor args \<in> set (validAuthFlavors m1)"
      using got fetch e0 m0 by (auto simp: getCredential_def split: if_splits)
    have status: "s = BadCert d"
      if "drpc_reply (drpc_Marshal_GetCredResp d
            \<lparr>GetCredResp_Status = s, GetCredResp_Cred = None\<rparr>) = Response bad" for s
    proof -
      from that have "drpc_Marshal_GetCredResp d
          \<lparr>GetCredResp_Status = s, GetCredResp_Cred = None\<rparr> = Inr bad"
        by (simp add: drpc_reply_def split: sum.splits)
      with uniq have "\<lparr>GetCredResp_Status = s, GetCredResp_Cred = (None :: 'c option)\<rparr> = ?bad"
        by blast
      then show ?thesis by simp
    qed
    have no_cred: False
      if "drpc_reply (drpc_Marshal_GetCredResp d
            \<lparr>GetCredResp_Status = 0, GetCredResp_Cred = Some c\<rparr>) = Response bad" for c
    proof -
      from that have "drpc_Marshal_GetCredResp d
          \<lparr>GetCredResp_Status = 0, GetCredResp_Cred = Some c\<rparr> = Inr bad"
        by (simp add: drpc_reply_def split: sum.splits)
      with uniq have "\<lparr>GetCredResp_Status = 0, GetCredResp_Cred = Some c\<rparr> = ?bad"
        by blast
      then show False by simp
    qed
    have key: "\<exists>e. PrivateKey d = Inl e"
    proof (cases "PrivateKey d")
      case (Inl e)
      then show ?thesis by blast
    next
      case (Inr signingKey)
      note k = Inr
      show ?thesis
      proof (cases "InitCredentialRequest d req (AuthArgs_Data args) signingKey")
        case (Inl ie)
        show ?thesis
        proof (cases "errors_Is ie (StatusErr (MiscError d))")
          case False
          with got fetch e0 m0 member k Inl show ?thesis
            by (simp add: getCredential_def)
        next
          case True
          show ?thesis
          proof (cases ie)
            case (StatusErr s)
            with True have s: "s = MiscError d" by simp
            from got fetch e0 m0 member k Inl True StatusErr
            have "credRespWithStatus d s = Response bad"
              by (simp add: getCredential_def)
            then have "s = BadCert d"
              using status by (simp add: credRespWithStatus_def)
            with s ne show ?thesis by simp
          qed (use got fetch e0 m0 member k Inl True in \<open>simp_all add: getCredential_def\<close>)
        qed
      next
        case (Inr req')
        show ?thesis
        proof (cases "signCredential m1 req'")
          case (Inl se)
          with got fetch e0 m0 member k Inr
          have "credRespWithStatus d (MiscError d) = Response bad"
            by (simp add: getCredential_def)
          then have "MiscError d = BadCert d"
            using status by (simp add: credRespWithStatus_def)
          with ne show ?thesis by simp
        next
          case sign: (Inr c)
          from got fetch e0 m0 member k Inr sign
          have "drpc_reply (drpc_Marshal_GetCredResp d
              \<lparr>GetCredResp_Status = 0, GetCredResp_Cred = Some c\<rparr>) = Response bad"
            by (simp add: getCredential_def)
          with no_cred show ?thesis by blast
        qed
      qed
    qed
    from fetched member key show ?thesis by blast
  qed
  show ?thesis
  proof (intro conjI impI allI)
    assume h: "(validAuthFlavors m = [] \<longrightarrow> fst (retrieveAuthFromServer d m) = None)
        \<and> AuthArgs_Flavor args \<in> set (validAuthFlavors m1) \<and> PrivateKey d = Inl err"
    then show r: "getCredential d m args req = (credRespWithStatus d (BadCert d), m1)"
      using on_failure by blast
    fix b
    assume "drpc_Marshal_GetCredResp d ?bad = Inr b"
    with r show "getCredential d m args req = (Response b, m1)"
      using bytes by blast
  next
    assume h: "BadCert d \<noteq> MiscError d \<and> drpc_Marshal_GetCredResp d ?bad = Inr bad
        \<and> (\<forall>r. drpc_Marshal_GetCredResp d r = Inr bad \<longrightarrow> r = ?bad)"
    show "fst (getCredential d m args req) = Response bad \<longleftrightarrow>
        (validAuthFlavors m = [] \<longrightarrow> fst (retrieveAuthFromServer d m) = None)
        \<and> AuthArgs_Flavor args \<in> set (validAuthFlavors m1) \<and> (\<exists>e. PrivateKey d = Inl e)"
    proof
      assume "fst (getCredential d m args req) = Response bad"
      with h only show "(validAuthFlavors m = [] \<longrightarrow> fst (retrieveAuthFromServer d m) = None)
        \<and> AuthArgs_Flavor args \<in> set (validAuthFlavors m1) \<and> (\<exists>e. PrivateKey d = Inl e)"
        by blast
    next
      assume a: "(validAuthFlavors m = [] \<longrightarrow> fst (retrieveAuthFromServer d m) = None)
        \<and> AuthArgs_Flavor args \<in> set (validAuthFlavors m1) \<and> (\<exists>e. PrivateKey d = Inl e)"
      then obtain e where "PrivateKey d = Inl e" by blast
      with a have "getCredential d m args req = (credRespWithStatus d (BadCert d), m1)"
        using on_failure by blast
      with h have "getCredential d m args req = (Response bad, m1)"
        using bytes by blast
      then show "fst (getCredential d m args req) = Response bad" by simp
    qed
  qed
qed

theorem getCredential_bad_certificate_witness:
  "fst (retrieveAuthFromServer example_collaborators (example_module [])) = None
   \<and> snd (retrieveAuthFromServer example_collaborators (example_module [])) = example_module [1]
   \<and> AuthArgs_Flavor \<lparr>AuthArgs_Flavor = 1, AuthArgs_Data = []\<rparr>
        \<in> set (validAuthFlavors (example_module [1]))
   \<and> PrivateKey example_collaborators = Inl (Errorf ''no certificate'' [])
   \<and> getCredential example_collaborators (example_module [])
        \<lparr>AuthArgs_Flavor = 1, AuthArgs_Data = []\<rparr> [] = (Response [1], example_module [1])
   \<and> BadCert example_collaborators \<noteq> MiscError example_collaborators
   \<and> PrivateKey (example_collaborators\<lparr>PrivateKey := Inr [9]\<rparr>) = Inr [9]
   \<and> fst (getCredential (example_collaborators\<lparr>PrivateKey := Inr [9]\<rparr>) (example_module [])
        \<lparr>AuthArgs_Flavor = 1, AuthArgs_Data = []\<rparr> []) \<noteq> Response [1]"
proof -
  let ?d = example_collaborators
  let ?d' = "example_collaborators\<lparr>PrivateKey := Inr [9]\<rparr>"
  let ?args = "\<lparr>AuthArgs_Flavor = 1, AuthArgs_Data = []\<rparr>"
  have r: "retrieveAuthFromServer ?d (example_module []) = (None, example_module [1])"
    by (simp add: retrieveAuthFromServer_def example_collaborators_def example_module_def)
  have r': "retrieveAuthFromServer ?d' (example_module []) = (None, example_module [1])"
    by (simp add: retrieveAuthFromServer_def example_collaborators_def example_module_def)
  have h2: "example_module [1] =
      (if validAuthFlavors (example_module []) = []
       then snd (retrieveAuthFromServer ?d (example_module []))
       else example_module [])"
    by (simp add: r) (simp add: example_module_def)
  have h2': "example_module [1] =
      (if validAuthFlavors (example_module []) = []
       then snd (retrieveAuthFromServer ?d' (example_module []))
       else example_module [])"
    by (simp add: r') (simp add: example_module_def)
  have h3: "AuthArgs_Flavor ?args \<in> set (validAuthFlavors (example_module [1]))"
    by (simp add: example_module_def)
  have h4: "PrivateKey ?d = Inl (Errorf ''no certificate'' [])"
    by (simp add: example_collaborators_def)
  have path: "(validAuthFlavors (example_module []) = [] \<longrightarrow>
        fst (retrieveAuthFromServer ?d (example_module [])) = None)
      \<and> AuthArgs_Flavor ?args \<in> set (validAuthFlavors (example_module [1]))
      \<and> PrivateKey ?d = Inl (Errorf ''no certificate'' [])"
    using r h3 h4 by simp
  have h5: "drpc_Marshal_GetCredResp ?d
      \<lparr>GetCredResp_Status = BadCert ?d, GetCredResp_Cred = None\<rparr> = Inr [1]"
    by (simp add: example_collaborators_def)
  have a: "getCredential ?d (example_module []) ?args [] = (Response [1], example_module [1])"
    using getCredential_bad_certificate
      [where d = ?d and m = "example_module []" and ?m1.0 = "example_module [1]"
         and args = ?args and req = "[]" and err = "Errorf ''no certificate'' []"
         and bad = "[1]", OF h2, THEN conjunct1, rule_format, OF path, THEN conjunct2,
         rule_format, OF h5] .
  have ne: "BadCert ?d' \<noteq> MiscError ?d'" "BadCert ?d \<noteq> MiscError ?d"
    by (simp_all add: example_collaborators_def)
  have h5': "drpc_Marshal_GetCredResp ?d'
      \<lparr>GetCredResp_Status = BadCert ?d', GetCredResp_Cred = None\<rparr> = Inr [1]"
    by (simp add: example_collaborators_def)
  have uniq: "\<forall>r. drpc_Marshal_GetCredResp ?d' r = Inr [1] \<longrightarrow>
      r = \<lparr>GetCredResp_Status = BadCert ?d', GetCredResp_Cred = None\<rparr>"
  proof (intro allI impI)
    fix r :: "bytes GetCredResp"
    assume "drpc_Marshal_GetCredResp ?d' r = Inr [1]"
    then have "GetCredResp_Status r = 1036 \<and> GetCredResp_Cred r = None"
      by (simp add: example_collaborators_def split: option.splits if_splits)
    then show "r = \<lparr>GetCredResp_Status = BadCert ?d', GetCredResp_Cred = None\<rparr>"
      by (cases r) (simp add: example_collaborators_def)
  qed
  have known: "BadCert ?d' \<noteq> MiscError ?d'
      \<and> drpc_Marshal_GetCredResp ?d'
           \<lparr>GetCredResp_Status = BadCert ?d', GetCredResp_Cred = None\<rparr> = Inr [1]
      \<and> (\<forall>r. drpc_Marshal_GetCredResp ?d' r = Inr [1] \<longrightarrow>
             r = \<lparr>GetCredResp_Status = BadCert ?d', GetCredResp_Cred = None\<rparr>)"
    using ne(1) h5' uniq by (intro conjI)
  have k: "PrivateKey ?d' = Inr [9]" by simp
  then have nokey: "\<not> (\<exists>e. PrivateKey ?d' = Inl e)" by simp
  have b: "fst (getCredential ?d' (example_module []) ?args []) \<noteq> Response [1]"
    using getCredential_bad_certificate
      [where d = ?d' and m = "example_module []" and ?m1.0 = "example_module [1]"
         and args = ?args and req = "[]" and err = "Errorf ''no certificate'' []"
         and bad = "[1]", OF h2', THEN conjunct2, rule_format, OF known] nokey
    by blast
  from r h3 h4 a ne(2) k b show ?thesis by simp
qed

text \<open>
  C7, as stated: a request for a flavor outside the populated valid list is answered with a
  status response. \<open>getCredential\<close> returns no response there, only an error.
\<close>

theorem getCredential_disallowed_flavor_counterexample:
  "validAuthFlavors (example_module [1]) \<noteq> []
   \<and> AuthArgs_Flavor \<lparr>AuthArgs_Flavor = 2, AuthArgs_Data = []\<rparr>
        \<notin> set (validAuthFlavors (example_module [1]))
   \<and> getCredential example_collaborators (example_module [1])
        \<lparr>AuthArgs_Flavor = 2, AuthArgs_Data = []\<rparr> [] =
      (Error (Errorf ''invalid authentication method: the method requested is not allowed by the server configuration.'' []),
       example_module [1])"
  by (simp add: getCredential_def example_module_def)

text \<open>
  C7, amended: for every request whose flavor is not in the valid list, once the list is
  populated, \<open>getCredential\<close> returns a nil response and the invalid-authentication-method
  error, and leaves the module with the populated list.
\<close>

theorem getCredential_disallowed_flavor_is_error:
  assumes "validAuthFlavors m = [] \<Longrightarrow> fst (retrieveAuthFromServer d m) = None"
    and "m1 = (if validAuthFlavors m = [] then snd (retrieveAuthFromServer d m) else m)"
    and "AuthArgs_Flavor args \<notin> set (validAuthFlavors m1)"
  shows "getCredential d m args req =
      (Error (Errorf ''invalid authentication method: the method requested is not allowed by the server configuration.'' []),
       m1)"
proof -
  have p: "(if validAuthFlavors m = [] then retrieveAuthFromServer d m else (None, m)) =
      (None, m1)"
    using assms(1,2) by (cases "retrieveAuthFromServer d m") auto
  show ?thesis
    using assms(3) by (simp add: getCredential_def p)
qed

theorem getCredential_disallowed_flavor_is_error_witness:
  "fst (retrieveAuthFromServer example_collaborators (example_module [])) = None
   \<and> snd (retrieveAuthFromServer example_collaborators (example_module [])) = example_module [1]
   \<and> AuthArgs_Flavor \<lparr>AuthArgs_Flavor = 2, AuthArgs_Data = []\<rparr>
        \<notin> set (validAuthFlavors (example_module [1]))
   \<and> getCredential example_collaborators (example_module [])
        \<lparr>AuthArgs_Flavor = 2, AuthArgs_Data = []\<rparr> [] =
      (Error (Errorf ''invalid authentication method: the method requested is not allowed by the server configuration.'' []),
       example_module [1])"
proof -
  have r: "retrieveAuthFromServer example_collaborators (example_module []) =
      (None, example_module [1])"
    by (simp add: retrieveAuthFromServer_def example_collaborators_def example_module_def)
  have h1: "validAuthFlavors (example_module []) = [] \<Longrightarrow>
      fst (retrieveAuthFromServer example_collaborators (example_module [])) = None"
    by (simp add: r)
  have h2: "example_module [1] =
      (if validAuthFlavors (example_module []) = []
       then snd (retrieveAuthFromServer example_collaborators (example_module []))
       else example_module [])"
    by (simp add: r) (simp add: example_module_def)
  have h3: "AuthArgs_Flavor \<lparr>AuthArgs_Flavor = 2, AuthArgs_Data = []\<rparr>
        \<notin> set (validAuthFlavors (example_module [1]))"
    by (simp add: example_module_def)
  from getCredential_disallowed_flavor_is_error[OF h1 h2 h3, of "[]"] r h3
  show ?thesis by simp
qed

text \<open>
  C10: \<open>GetMethod\<close> returns a method only for the ID of the request-credentials method,
  and that method; every other ID gets the invalid-method-ID error, the ID of the
  request-valid-flavors method among them when the two IDs differ. \<open>HandleCall\<close>, once
  the arguments are read and the factory is found, serves both methods.
\<close>

theorem GetMethod_only_request_credentials:
  "(GetMethod Method_ID i = Inr meth \<longleftrightarrow>
      i = Method_ID MethodRequestCredentials \<and> meth = MethodRequestCredentials)
   \<and> (i \<noteq> Method_ID MethodRequestCredentials \<longrightarrow>
        GetMethod Method_ID i =
          Inl (Errorf ''invalid method ID %d for module %s'' [ArgD i, ArgS ''agent_security'']))
   \<and> (Method_ID MethodRequestValidFlavors \<noteq> Method_ID MethodRequestCredentials \<longrightarrow>
        GetMethod Method_ID (Method_ID MethodRequestValidFlavors) =
          Inl (Errorf ''invalid method ID %d for module %s''
                 [ArgD (Method_ID MethodRequestValidFlavors), ArgS ''agent_security'']))
   \<and> (\<forall>args factory.
          getAuthArgs (Unix_GetAuthFlavor d) (Unmarshal_AuthArgs d) reqb = Inr args
          \<and> FlavorToFactory d (AuthArgs_Flavor args) = Some factory \<longrightarrow>
          HandleCall d m MethodRequestCredentials reqb =
            getCredential d m args (AllocCredentialRequest d factory)
          \<and> HandleCall d m MethodRequestValidFlavors reqb = getValidAuthFlavors d m)"
  by (auto simp: GetMethod_def String_def HandleCall_def)

theorem GetMethod_only_request_credentials_witness:
  "GetMethod example_Method_ID 101 = Inr MethodRequestCredentials
   \<and> example_Method_ID MethodRequestValidFlavors \<noteq> example_Method_ID MethodRequestCredentials
   \<and> GetMethod example_Method_ID (example_Method_ID MethodRequestValidFlavors) =
        Inl (Errorf ''invalid method ID %d for module %s'' [ArgD 102, ArgS ''agent_security''])
   \<and> HandleCall example_collaborators (example_module [1]) MethodRequestCredentials [1] =
        getCredential example_collaborators (example_module [1])
          \<lparr>AuthArgs_Flavor = 1, AuthArgs_Data = []\<rparr> []
   \<and> HandleCall example_collaborators (example_module [1]) MethodRequestValidFlavors [1] =
        (Response [2], example_module [1])"
proof -
  note inst = GetMethod_only_request_credentials
    [where Method_ID = example_Method_ID and d = example_collaborators
       and m = "example_module [1]" and reqb = "[1]"]
  have ids: "example_Method_ID MethodRequestCredentials = 101"
      "example_Method_ID MethodRequestValidFlavors = 102"
    by (simp_all add: example_Method_ID_def)
  have a: "GetMethod example_Method_ID 101 = Inr MethodRequestCredentials"
    using inst[where i = 101 and meth = MethodRequestCredentials] ids by simp
  have b: "GetMethod example_Method_ID (example_Method_ID MethodRequestValidFlavors) =
        Inl (Errorf ''invalid method ID %d for module %s'' [ArgD 102, ArgS ''agent_security''])"
    using inst[where i = 102 and meth = MethodRequestCredentials] ids by simp
  have args: "getAuthArgs (Unix_GetAuthFlavor example_collaborators)
        (Unmarshal_AuthArgs example_collaborators) [1] =
      Inr \<lparr>AuthArgs_Flavor = 1, AuthArgs_Data = []\<rparr>
      \<and> FlavorToFactory example_collaborators
          (AuthArgs_Flavor \<lparr>AuthArgs_Flavor = 1, AuthArgs_Data = []\<rparr>) =
        Some CredentialRequestUnix"
    by (simp add: getAuthArgs_def example_collaborators_def)
  have alloc: "AllocCredentialRequest example_collaborators CredentialRequestUnix = []"
    by (simp add: example_collaborators_def)
  have g: "getValidAuthFlavors example_collaborators (example_module [1]) =
      (Response [2], example_module [1])"
    by (simp add: getValidAuthFlavors_def example_module_def example_collaborators_def
        drpc_reply_def)
  have c: "HandleCall example_collaborators (example_module [1]) MethodRequestCredentials [1] =
        getCredential example_collaborators (example_module [1])
          \<lparr>AuthArgs_Flavor = 1, AuthArgs_Data = []\<rparr> []
      \<and> HandleCall example_collaborators (example_module [1]) MethodRequestValidFlavors [1] =
        (Response [2], example_module [1])"
    using inst[where i = 101 and meth = MethodRequestCredentials,
        THEN conjunct2, THEN conjunct2, THEN conjunct2, rule_format, OF args] alloc g
    by simp
  from a b c ids show ?thesis by simp
qed

end
